theory Spec2Isabelle
  imports Main "HOL-Library.Word"
begin

section \<open>JavaScript strings\<close>

text \<open>
  A JavaScript string is a sequence of UTF-16 code units. ASCII text is written with
  \<open>js\<close>; every other literal of the source is given by its code units (an emoji is a
  surrogate pair).
\<close>

type_synonym jsstring = "16 word list"

definition js :: "string \<Rightarrow> jsstring" where
  "js s = map of_char s"

text \<open>The line feed of a template literal's line break, and the space.\<close>

definition LF :: "16 word" where
  "LF = 0x000A"

definition SP :: "16 word" where
  "SP = 0x0020"

text \<open>
  \<open>a || b\<close> on strings: the empty string is the only falsy string.
\<close>

definition or_else :: "jsstring \<Rightarrow> jsstring \<Rightarrow> jsstring" where
  "or_else a b = (if a = [] then b else a)"

text \<open>
  \<open>xs[i] || d\<close> on an array of strings: \<open>xs[i]\<close> is \<open>undefined\<close> (falsy) when
  \<open>i\<close> is out of range.
\<close>

definition at_or :: "jsstring list \<Rightarrow> nat \<Rightarrow> jsstring \<Rightarrow> jsstring" where
  "at_or xs i d = (if i < length xs then or_else (xs ! i) d else d)"

text \<open>
  \<open>String.prototype.trim\<close> removes the WhiteSpace and LineTerminator code points of
  ECMAScript from both ends: TAB, LF, VT, FF, CR, SP, NBSP, U+1680, U+2000..U+200A,
  U+2028, U+2029, U+202F, U+205F, U+3000 and U+FEFF.
\<close>

definition isWhiteSpace :: "16 word \<Rightarrow> bool" where
  "isWhiteSpace c \<longleftrightarrow>
     c \<in> set [0x0009, 0x000A, 0x000B, 0x000C, 0x000D, 0x0020, 0x00A0, 0x1680,
               0x2028, 0x2029, 0x202F, 0x205F, 0x3000, 0xFEFF]
     \<or> (0x2000 \<le> c \<and> c \<le> 0x200A)"

definition trim :: "jsstring \<Rightarrow> jsstring" where
  "trim s = rev (dropWhile isWhiteSpace (rev (dropWhile isWhiteSpace s)))"

text \<open>
  \<open>toLowerCase\<close> and \<open>toUpperCase\<close>: ECMAScript applies the Unicode case mapping. The
  model carries its Basic Latin part, code unit by code unit, and leaves every other
  code unit as it is; that is the whole mapping on the caseless CJK text and the ASCII
  identifiers this program handles.
\<close>

definition lower_unit :: "16 word \<Rightarrow> 16 word" where
  "lower_unit c = (if 0x0041 \<le> c \<and> c \<le> 0x005A then c + 0x0020 else c)"

definition upper_unit :: "16 word \<Rightarrow> 16 word" where
  "upper_unit c = (if 0x0061 \<le> c \<and> c \<le> 0x007A then c - 0x0020 else c)"

definition toLowerCase :: "jsstring \<Rightarrow> jsstring" where
  "toLowerCase s = map lower_unit s"

definition toUpperCase :: "jsstring \<Rightarrow> jsstring" where
  "toUpperCase s = map upper_unit s"

text \<open>\<open>s.startsWith(p)\<close> and \<open>s.includes(k)\<close> (\<open>includes\<close> is a keyword of Isabelle, hence the suffix).\<close>

fun startsWith :: "jsstring \<Rightarrow> jsstring \<Rightarrow> bool" where
  "startsWith s [] = True"
| "startsWith [] (p # ps) = False"
| "startsWith (c # cs) (p # ps) = (c = p \<and> startsWith cs ps)"

fun includes_js :: "jsstring \<Rightarrow> jsstring \<Rightarrow> bool" where
  "includes_js [] k = (k = [])"
| "includes_js (c # cs) k = (startsWith (c # cs) k \<or> includes_js cs k)"

text \<open>
  \<open>s.split(sep)\<close> for a separator of one code unit (the source splits on a space only):
  the result is never empty, \<open>''.split(' ')\<close> is \<open>['']\<close>.
\<close>

fun split :: "16 word \<Rightarrow> jsstring \<Rightarrow> jsstring list" where
  "split sep [] = [[]]"
| "split sep (c # cs) =
     (if c = sep then [] # split sep cs
      else (case split sep cs of
              [] \<Rightarrow> [[c]]
            | piece # pieces \<Rightarrow> (c # piece) # pieces))"

text \<open>\<open>Array.prototype.join\<close> on an array of strings.\<close>

fun join :: "jsstring \<Rightarrow> jsstring list \<Rightarrow> jsstring" where
  "join sep [] = []"
| "join sep [x] = x"
| "join sep (x # y # ys) = x @ sep @ join sep (y # ys)"

section \<open>The task classifier (mockAI.js)\<close>

record question =
  id_q :: jsstring
  text_q :: jsstring
  subText :: jsstring

record analysis =
  type_a :: jsstring
  recommendedQuestions :: "question list"

text \<open>
  The keyword sets, in the order the source tests them. The CJK keywords are
  U+4EE3 U+7801 (code), U+811A U+672C (script); U+6587 U+6848 (copy text),
  U+5BA3 U+4F20 (publicity), U+5C0F U+7EA2 U+4E66 (the platform Xiaohongshu).
\<close>

definition analyzeTask :: "jsstring \<Rightarrow> analysis" where
  "analyzeTask input =
    (let lowerInput = toLowerCase input in
     if includes_js lowerInput [0x4EE3, 0x7801] \<or> includes_js lowerInput (js ''code'')
        \<or> includes_js lowerInput [0x811A, 0x672C] \<or> includes_js lowerInput (js ''python'')
     then \<lparr> type_a = js ''Coding'',
            recommendedQuestions =
              [\<lparr> id_q = js ''q_lang'',
                  text_q = [0x4EC0, 0x4E48, 0x8BED, 0x8A00, 0xFF1F],
                  subText = [0x4F8B, 0x5982] @ js '': Python, JavaScript, C++'' \<rparr>,
               \<lparr> id_q = js ''q_func'',
                  text_q = [0x5177, 0x4F53, 0x529F, 0x80FD, 0xFF1F],
                  subText = [0x4F8B, 0x5982] @ js '': '' @ [0x6570, 0x636E, 0x6E05, 0x6D17]
                    @ js '', '' @ [0x7F51, 0x9875, 0x722C, 0x866B]
                    @ js '', '' @ [0x6392, 0x5E8F, 0x7B97, 0x6CD5] \<rparr>,
               \<lparr> id_q = js ''q_lib'',
                  text_q = [0x6D89, 0x53CA, 0x7684, 0x5E93, 0x6216, 0x6846, 0x67B6, 0xFF1F],
                  subText = [0x4F8B, 0x5982] @ js '': React, Pandas, Tailwind'' \<rparr>] \<rparr>
     else if includes_js lowerInput [0x6587, 0x6848] \<or> includes_js lowerInput (js ''copy'')
        \<or> includes_js lowerInput [0x5BA3, 0x4F20] \<or> includes_js lowerInput [0x5C0F, 0x7EA2, 0x4E66]
     then \<lparr> type_a = js ''MarketingCopy'',
            recommendedQuestions =
              [\<lparr> id_q = js ''q_platform'',
                  text_q = [0x53D1, 0x5E03, 0x5E73, 0x53F0, 0xFF1F],
                  subText = [0x4F8B, 0x5982] @ js '': '' @ [0x5C0F, 0x7EA2, 0x4E66]
                    @ js '', '' @ [0x670B, 0x53CB, 0x5708] @ js '', '' @ [0x6296, 0x97F3] \<rparr>,
               \<lparr> id_q = js ''q_audience'',
                  text_q = [0x76EE, 0x6807, 0x53D7, 0x4F17, 0xFF1F],
                  subText = [0x4F8B, 0x5982] @ js '': '' @ [0x5927, 0x5B66, 0x751F]
                    @ js '', '' @ [0x5B9D, 0x5988] @ js '', '' @ [0x804C, 0x573A, 0x65B0, 0x4EBA] \<rparr>,
               \<lparr> id_q = js ''q_goal'',
                  text_q = [0x6838, 0x5FC3, 0x76EE, 0x7684, 0xFF1F],
                  subText = [0x4F8B, 0x5982] @ js '': '' @ [0x589E, 0x52A0, 0x70B9, 0x51FB]
                    @ js '', '' @ [0x4FC3, 0x8FDB, 0x4E0B, 0x5355]
                    @ js '', '' @ [0x54C1, 0x724C, 0x66DD, 0x5149] \<rparr>] \<rparr>
     else \<lparr> type_a = js ''General'',
            recommendedQuestions =
              [\<lparr> id_q = js ''q_detail'',
                  text_q = [0x5177, 0x4F53, 0x7EC6, 0x8282, 0xFF1F],
                  subText = [0x8865, 0x5145, 0x66F4, 0x591A, 0x5173, 0x4E8E, 0x4EFB, 0x52A1,
                             0x7684, 0x80CC, 0x666F, 0x4FE1, 0x606F] \<rparr>,
               \<lparr> id_q = js ''q_audience'',
                  text_q = [0x5199, 0x7ED9, 0x8C01, 0x770B, 0xFF1F],
                  subText = [0x76EE, 0x6807, 0x8BFB, 0x8005, 0x6216, 0x53D7, 0x4F17, 0x662F,
                             0x8C01] \<rparr>,
               \<lparr> id_q = js ''q_format'',
                  text_q = [0x8F93, 0x51FA, 0x683C, 0x5F0F, 0xFF1F],
                  subText = [0x4F8B, 0x5982] @ js '': '' @ [0x5217, 0x8868]
                    @ js '', '' @ [0x8868, 0x683C] @ js '', '' @ [0x7EAF, 0x6587, 0x672C] \<rparr>] \<rparr>)"

text \<open>The two keyword tests of \<open>analyzeTask\<close>, named for the statements below.\<close>

definition coding_keywords :: "jsstring list" where
  "coding_keywords = [[0x4EE3, 0x7801], js ''code'', [0x811A, 0x672C], js ''python'']"

definition marketing_keywords :: "jsstring list" where
  "marketing_keywords =
     [[0x6587, 0x6848], js ''copy'', [0x5BA3, 0x4F20], [0x5C0F, 0x7EA2, 0x4E66]]"

definition has_keyword :: "jsstring list \<Rightarrow> jsstring \<Rightarrow> bool" where
  "has_keyword kws input = list_ex (includes_js (toLowerCase input)) kws"

section \<open>The prompt builder (promptEngine.js)\<close>

text \<open>
  A plain object with string keys and string values: its own properties in insertion
  order, which is the order \<open>Object.entries\<close> lists them in (every key of this program
  is a question id, none is an array index). \<open>o[k] = v\<close> overwrites in place or appends.
\<close>

type_synonym obj = "(jsstring \<times> jsstring) list"

definition obj_set :: "jsstring \<Rightarrow> jsstring \<Rightarrow> obj \<Rightarrow> obj" where
  "obj_set k v m =
     (if k \<in> fst ` set m then map (\<lambda>(k', v'). if k' = k then (k', v) else (k', v')) m
      else m @ [(k, v)])"

record CoStarBuilder =
  "context" :: jsstring
  objective :: jsstring
  style :: "jsstring list"
  tone :: jsstring
  audience :: jsstring
  responseFormat :: jsstring
  constraints :: "jsstring list"
  userInputs :: obj

definition new_CoStarBuilder :: CoStarBuilder where
  "new_CoStarBuilder =
     \<lparr> context = [], objective = [], style = [], tone = [], audience = [],
       responseFormat = [], constraints = [], userInputs = [] \<rparr>"

definition setObjective :: "jsstring \<Rightarrow> CoStarBuilder \<Rightarrow> CoStarBuilder" where
  "setObjective task b = b\<lparr>objective := task\<rparr>"

text \<open>
  The context sentence: U+4F60 U+662F U+4E00 U+4F4D (you are a), then the industry or
  U+901A U+7528 (general), then U+9886 U+57DF U+7684 U+4E13 U+5BB6 U+3002 (expert of
  the field, full stop), each followed by a space, then the custom context.
\<close>

definition setContext :: "jsstring \<Rightarrow> jsstring \<Rightarrow> CoStarBuilder \<Rightarrow> CoStarBuilder" where
  "setContext industry customContext b =
     b\<lparr>context := [0x4F60, 0x662F, 0x4E00, 0x4F4D] @ js '' ''
          @ or_else industry [0x901A, 0x7528]
          @ js '' '' @ [0x9886, 0x57DF, 0x7684, 0x4E13, 0x5BB6, 0x3002] @ js '' ''
          @ customContext\<rparr>"

definition addStyle :: "jsstring \<Rightarrow> CoStarBuilder \<Rightarrow> CoStarBuilder" where
  "addStyle styleTag b = b\<lparr>style := style b @ [styleTag]\<rparr>"

definition setAudience :: "jsstring \<Rightarrow> CoStarBuilder \<Rightarrow> CoStarBuilder" where
  "setAudience aud b = b\<lparr>audience := aud\<rparr>"

definition addConstraint :: "jsstring \<Rightarrow> CoStarBuilder \<Rightarrow> CoStarBuilder" where
  "addConstraint c b = b\<lparr>constraints := constraints b @ [c]\<rparr>"

definition setResponseFormat :: "jsstring \<Rightarrow> CoStarBuilder \<Rightarrow> CoStarBuilder" where
  "setResponseFormat format b = b\<lparr>responseFormat := format\<rparr>"

definition setUserInputs :: "obj \<Rightarrow> CoStarBuilder \<Rightarrow> CoStarBuilder" where
  "setUserInputs inputs b = b\<lparr>userInputs := inputs\<rparr>"

subsection \<open>The fixed text of the template\<close>

text \<open>
  The headings, each a hash sign, an emoji and a title: role (U+1F680), core task
  (U+1F3AF), user input (U+1F4DD), chain of thought (U+26D3 U+FE0F), constraints and
  quality control (U+26D4), reply below (U+1F447).
\<close>

definition heading_role :: jsstring where
  "heading_role = js ''# '' @ [0xD83D, 0xDE80] @ js '' ''
     @ [0x89D2, 0x8272, 0x8BBE, 0x5B9A] @ js '' (SYSTEM ROLE)''"

definition heading_costar :: jsstring where
  "heading_costar = js ''# '' @ [0xD83C, 0xDFAF] @ js '' ''
     @ [0x6838, 0x5FC3, 0x4EFB, 0x52A1] @ js '' (CO-STAR)''"

definition heading_inputs :: jsstring where
  "heading_inputs = js ''# '' @ [0xD83D, 0xDCDD] @ js '' ''
     @ [0x7528, 0x6237, 0x8F93, 0x5165, 0x4FE1, 0x606F]"

definition heading_chain :: jsstring where
  "heading_chain = js ''# '' @ [0x26D3, 0xFE0F] @ js '' ''
     @ [0x601D, 0x8003, 0x94FE, 0x8DEF] @ js '' (Chain of Thought)''"

definition heading_constraints :: jsstring where
  "heading_constraints = js ''# '' @ [0x26D4] @ js '' ''
     @ [0x9650, 0x5236, 0x6761, 0x4EF6, 0x4E0E, 0x8D28, 0x91CF, 0x63A7, 0x5236]"

definition heading_reply :: jsstring where
  "heading_reply = js ''# '' @ [0xD83D, 0xDC47] @ js '' ''
     @ [0x8BF7, 0x5728, 0x4E0B, 0x65B9, 0x751F, 0x6210, 0x56DE, 0x590D]"

text \<open>The labels of the summary block and the phrases around the industry.\<close>

definition label_context :: jsstring where
  "label_context = js ''**'' @ [0x80CC, 0x666F] @ js '' (Context)**: ''
     @ [0x670D, 0x52A1, 0x4E8E] @ js '' ''"

definition industry_suffix :: jsstring where
  "industry_suffix = js '' '' @ [0x884C, 0x4E1A, 0x3002]"

definition label_objective :: jsstring where
  "label_objective = js ''**'' @ [0x76EE, 0x6807] @ js '' (Objective)**: ''"

definition label_style :: jsstring where
  "label_style = js ''**'' @ [0x98CE, 0x683C] @ js '' (Style)**: ''"

definition label_audience :: jsstring where
  "label_audience = js ''**'' @ [0x53D7, 0x4F17] @ js '' (Audience)**: ''"

definition label_response :: jsstring where
  "label_response = js ''**'' @ [0x683C, 0x5F0F] @ js '' (Response)**: ''"

text \<open>
  The fallback phrases: target (for the industry), professional and clear (style),
  ordinary user (audience), structured Markdown (format), no special restriction
  (constraints), professional (tone).
\<close>

definition default_industry :: jsstring where
  "default_industry = [0x76EE, 0x6807]"

definition default_style :: jsstring where
  "default_style = [0x4E13, 0x4E1A, 0x3001, 0x6E05, 0x6670]"

definition default_audience :: jsstring where
  "default_audience = [0x666E, 0x901A, 0x7528, 0x6237]"

definition default_format :: jsstring where
  "default_format = [0x7ED3, 0x6784, 0x5316] @ js '' Markdown''"

definition no_constraints :: jsstring where
  "no_constraints = js ''- '' @ [0x65E0, 0x7279, 0x6B8A, 0x9650, 0x5236, 0x3002]"

definition default_tone :: jsstring where
  "default_tone = [0x4E13, 0x4E1A]"

text \<open>The five steps of the chain of thought; the fourth ends with the style list.\<close>

definition chain_1 :: jsstring where
  "chain_1 = js ''1. '' @ [0x5206, 0x6790, 0x7528, 0x6237, 0x7684, 0x6838, 0x5FC3, 0x76EE,
     0x6807, 0x548C, 0x53D7, 0x4F17, 0x7FA4, 0x4F53, 0x3002]"

definition chain_2 :: jsstring where
  "chain_2 = js ''2. '' @ [0x8BC6, 0x522B, 0x5173, 0x952E, 0x9650, 0x5236, 0x6761, 0x4EF6,
     0x548C, 0x98CE, 0x683C, 0x8981, 0x6C42, 0x3002]"

definition chain_3 :: jsstring where
  "chain_3 = js ''3. '' @ [0x6784, 0x601D, 0x5185, 0x5BB9, 0x7ED3, 0x6784, 0xFF0C, 0x786E,
     0x4FDD, 0x903B, 0x8F91, 0x6E05, 0x6670, 0x3001, 0x91CD, 0x70B9, 0x7A81, 0x51FA, 0x3002]"

definition chain_4 :: jsstring where
  "chain_4 = js ''4. '' @ [0x8C03, 0x6574, 0x8BED, 0x6C14, 0x4EE5, 0x5339, 0x914D, 0x7528,
     0x6237, 0x8981, 0x6C42, 0x7684, 0x98CE, 0x683C, 0xFF1A]"

definition chain_5 :: jsstring where
  "chain_5 = js ''5. '' @ [0x6309, 0x7167, 0x6307, 0x5B9A, 0x683C, 0x5F0F, 0x8F93, 0x51FA,
     0x6700, 0x7EC8, 0x7ED3, 0x679C, 0x3002]"

text \<open>
  The three universal constraints: no fabrication, fit for production, and keeping the
  tone, whose line is \<open>keep_tone_prefix\<close>, the tone and \<open>keep_tone_suffix\<close>.
\<close>

definition no_hallucination :: jsstring where
  "no_hallucination = js ''- '' @ [0x4E25, 0x7981, 0x634F, 0x9020, 0x4E8B, 0x5B9E]
     @ js '' (No Hallucination)'' @ [0x3002]"

definition production_ready :: jsstring where
  "production_ready = js ''- '' @ [0x786E, 0x4FDD, 0x8F93, 0x51FA, 0x5185, 0x5BB9, 0x53EF,
     0x76F4, 0x63A5, 0x7528, 0x4E8E, 0x751F, 0x4EA7, 0x73AF, 0x5883, 0x3002]"

definition keep_tone_prefix :: jsstring where
  "keep_tone_prefix = js ''- '' @ [0x4FDD, 0x6301] @ js '' ''"

definition keep_tone_suffix :: jsstring where
  "keep_tone_suffix = js '' '' @ [0x7684, 0x8BED, 0x8C03, 0x3002]"

subsection \<open>build\<close>

text \<open>
  The template literal of \<open>build\<close>, line feeds included, before \<open>.trim()\<close>. The style
  list is joined with the ideographic comma U+3001.
\<close>

definition build_template :: "CoStarBuilder \<Rightarrow> jsstring" where
  "build_template b =
    (let styleStr = join [0x3001] (style b);
         inputsStr = join [LF]
           (map (\<lambda>(key, val).
                  let label = (if startsWith key (js ''q_'') then toUpperCase (drop 2 key)
                               else key)
                  in js ''- **'' @ label @ js ''**: '' @ val)
                (userInputs b))
     in [LF]
      @ heading_role @ [LF]
      @ context b @ [LF]
      @ [LF]
      @ heading_costar @ [LF]
      @ label_context @ at_or (split SP (context b)) 1 default_industry @ industry_suffix @ [LF]
      @ label_objective @ objective b @ [LF]
      @ label_style @ or_else styleStr default_style @ [LF]
      @ label_audience @ or_else (audience b) default_audience @ [LF]
      @ label_response @ or_else (responseFormat b) default_format @ [LF]
      @ [LF]
      @ heading_inputs @ [LF]
      @ inputsStr @ [LF]
      @ [LF]
      @ heading_chain @ [LF]
      @ chain_1 @ [LF]
      @ chain_2 @ [LF]
      @ chain_3 @ [LF]
      @ chain_4 @ styleStr @ [0x3002] @ [LF]
      @ chain_5 @ [LF]
      @ [LF]
      @ heading_constraints @ [LF]
      @ or_else (join [LF] (map (\<lambda>c. js ''- '' @ c) (constraints b))) no_constraints @ [LF]
      @ no_hallucination @ [LF]
      @ production_ready @ [LF]
      @ keep_tone_prefix @ at_or (style b) 0 default_tone @ keep_tone_suffix @ [LF]
      @ [LF]
      @ heading_reply @ [LF])"

definition build :: "CoStarBuilder \<Rightarrow> jsstring" where
  "build b = trim (build_template b)"

subsection \<open>PromptPresets\<close>

text \<open>
  The constraint and format strings of the presets. Marketing: persuasion techniques
  (FOMO, social proof), benefits rather than features, copy format (title, body, call
  to action). Coding: Clean Code, comments on complex logic, code block with Markdown
  explanation. Academic: rigorous language, cited sources, paper structure.
\<close>

definition marketing_persuasion :: jsstring where
  "marketing_persuasion = [0x4F7F, 0x7528, 0x5177, 0x6709, 0x8BF4, 0x670D, 0x529B, 0x7684,
     0x5FC3, 0x7406, 0x5B66, 0x6280, 0x5DE7] @ js '' ('' @ [0x5982] @ js '' FOMO, ''
     @ [0x793E, 0x4F1A, 0x8BA4, 0x540C] @ js '')'' @ [0x3002]"

definition marketing_benefits :: jsstring where
  "marketing_benefits = [0x5F3A, 0x8C03, 0x4EA7, 0x54C1] @ js ''/''
     @ [0x670D, 0x52A1, 0x5E26, 0x6765, 0x7684, 0x5229, 0x76CA, 0xFF0C, 0x800C, 0x975E,
        0x4EC5, 0x4EC5, 0x5217, 0x4E3E, 0x529F, 0x80FD, 0x3002]"

definition marketing_format :: jsstring where
  "marketing_format = [0x6587, 0x6848, 0x683C, 0x5F0F] @ js '' ('' @ [0x6807, 0x9898]
     @ js '' + '' @ [0x6B63, 0x6587] @ js '' + '' @ [0x884C, 0x52A8, 0x53F7, 0x53EC] @ js '')''"

definition coding_clean :: jsstring where
  "coding_clean = [0x9075, 0x5FAA] @ js '' Clean Code '' @ [0x4EE3, 0x7801, 0x89C4, 0x8303, 0x3002]"

definition coding_comments :: jsstring where
  "coding_comments = [0x4E3A, 0x590D, 0x6742, 0x7684, 0x903B, 0x8F91, 0x903B, 0x8F91, 0x6DFB,
     0x52A0, 0x4E2D, 0x6587, 0x6CE8, 0x91CA, 0x3002]"

definition coding_format :: jsstring where
  "coding_format = [0x4EE3, 0x7801, 0x5757] @ js '' + Markdown '' @ [0x89E3, 0x91CA]"

definition academic_language :: jsstring where
  "academic_language = [0x4F7F, 0x7528, 0x4E25, 0x8C28, 0x7684, 0x5B66, 0x672F, 0x8BED, 0x8A00,
     0x3002]"

definition academic_sources :: jsstring where
  "academic_sources = [0x5982, 0x6709, 0x5F15, 0x7528, 0xFF0C, 0x8BF7, 0x6CE8, 0x660E, 0x6765,
     0x6E90, 0x3002]"

definition academic_format :: jsstring where
  "academic_format = [0x5B66, 0x672F, 0x8BBA, 0x6587, 0x7ED3, 0x6784] @ js '' (''
     @ [0x6458, 0x8981] @ js '', '' @ [0x5F15, 0x8A00] @ js '', '' @ [0x4E3B, 0x4F53]
     @ js '', '' @ [0x7ED3, 0x8BBA] @ js '')''"

definition marketing :: "CoStarBuilder \<Rightarrow> CoStarBuilder" where
  "marketing builder =
     setResponseFormat marketing_format
       (addConstraint marketing_benefits (addConstraint marketing_persuasion builder))"

definition coding :: "CoStarBuilder \<Rightarrow> CoStarBuilder" where
  "coding builder =
     setResponseFormat coding_format
       (addConstraint coding_comments (addConstraint coding_clean builder))"

definition academic :: "CoStarBuilder \<Rightarrow> CoStarBuilder" where
  "academic builder =
     setResponseFormat academic_format
       (addConstraint academic_sources (addConstraint academic_language builder))"

subsection \<open>The constraints block, as specified\<close>

text \<open>
  The constraints block according to the specification: the heading, every accumulated
  constraint on a line of its own, in order, then the three universal constraints, the
  last of them naming the tone \<open>t\<close>.
\<close>

definition constraints_section :: "jsstring list \<Rightarrow> jsstring \<Rightarrow> jsstring" where
  "constraints_section cs t =
     heading_constraints @ [LF]
     @ join [LF] (map (\<lambda>c. js ''- '' @ c) cs) @ [LF]
     @ no_hallucination @ [LF]
     @ production_ready @ [LF]
     @ keep_tone_prefix @ t @ keep_tone_suffix"

text \<open>
  The part of the template above the constraints heading (a name for the statements
  and proofs below; \<open>build_template\<close> is the source's template).
\<close>

definition before_constraints :: "CoStarBuilder \<Rightarrow> jsstring" where
  "before_constraints b =
    (let styleStr = join [0x3001] (style b);
         inputsStr = join [LF]
           (map (\<lambda>(key, val).
                  let label = (if startsWith key (js ''q_'') then toUpperCase (drop 2 key)
                               else key)
                  in js ''- **'' @ label @ js ''**: '' @ val)
                (userInputs b))
     in heading_role @ [LF]
      @ context b @ [LF]
      @ [LF]
      @ heading_costar @ [LF]
      @ label_context @ at_or (split SP (context b)) 1 default_industry @ industry_suffix @ [LF]
      @ label_objective @ objective b @ [LF]
      @ label_style @ or_else styleStr default_style @ [LF]
      @ label_audience @ or_else (audience b) default_audience @ [LF]
      @ label_response @ or_else (responseFormat b) default_format @ [LF]
      @ [LF]
      @ heading_inputs @ [LF]
      @ inputsStr @ [LF]
      @ [LF]
      @ heading_chain @ [LF]
      @ chain_1 @ [LF]
      @ chain_2 @ [LF]
      @ chain_3 @ [LF]
      @ chain_4 @ styleStr @ [0x3002] @ [LF]
      @ chain_5 @ [LF]
      @ [LF])"

text \<open>Several \<open>addConstraint\<close> calls in a row.\<close>

definition addConstraints :: "jsstring list \<Rightarrow> CoStarBuilder \<Rightarrow> CoStarBuilder" where
  "addConstraints cs b = foldl (\<lambda>b c. addConstraint c b) b cs"

section \<open>The question wizard (Wizard.jsx)\<close>

datatype js_error = TypeError | SyntaxError

text \<open>The state of the component: \<open>useState(0)\<close>, \<open>useState({})\<close>, \<open>useState('')\<close>.\<close>

record wizard =
  currentIndex :: nat
  answers :: obj
  currentAnswer :: jsstring

definition wizard_init :: wizard where
  "wizard_init = \<lparr> currentIndex = 0, answers = [], currentAnswer = [] \<rparr>"

text \<open>
  \<open>handleNext(skip)\<close> returns the next state of the component and the argument of
  \<open>onComplete\<close> when it calls it. \<open>currentQuestion\<close> is \<open>questions[currentIndex]\<close>,
  \<open>undefined\<close> out of range, where reading its \<open>id\<close> throws a TypeError. The
  comparison with \<open>questions.length - 1\<close> is on numbers, \<open>-1\<close> for no question.
\<close>

definition handleNext ::
  "bool \<Rightarrow> question list \<Rightarrow> wizard \<Rightarrow> js_error + (wizard \<times> obj option)" where
  "handleNext skip questions w =
     (if \<not> skip \<and> trim (currentAnswer w) \<noteq> [] \<and> \<not> currentIndex w < length questions
      then Inl TypeError
      else
        let newAnswers =
              (if \<not> skip \<and> trim (currentAnswer w) \<noteq> []
               then obj_set (id_q (questions ! currentIndex w)) (currentAnswer w)
                      (wizard.answers w)
               else wizard.answers w);
            w' = w\<lparr>wizard.answers := newAnswers, currentAnswer := []\<rparr>
        in if int (currentIndex w) < int (length questions) - 1
           then Inr (w'\<lparr>currentIndex := currentIndex w + 1\<rparr>, None)
           else Inr (w', Some newAnswers))"

text \<open>
  The Clarify stage: for each question the user leaves some text in the text area
  (\<open>setCurrentAnswer\<close>) and presses next (\<open>False\<close>) or skip (\<open>True\<close>). The stage ends
  when \<open>onComplete\<close> is called: the application then leaves the wizard step.
\<close>

fun clarify ::
  "question list \<Rightarrow> (jsstring \<times> bool) list \<Rightarrow> wizard \<Rightarrow> js_error + (wizard \<times> obj option)" where
  "clarify questions [] w = Inr (w, None)"
| "clarify questions ((typed, skip) # acts) w =
     (case handleNext skip questions (w\<lparr>currentAnswer := typed\<rparr>) of
        Inl e \<Rightarrow> Inl e
      | Inr (w', Some collected) \<Rightarrow> Inr (w', Some collected)
      | Inr (w', None) \<Rightarrow> clarify questions acts w')"

text \<open>
  The ids of the questions whose submitted answer is recorded according to the
  specification: submitted with next, and not blank once trimmed.
\<close>

definition recorded :: "question list \<Rightarrow> (jsstring \<times> bool) list \<Rightarrow> jsstring list" where
  "recorded qs acts =
     map (\<lambda>(q, typed, skip). id_q q)
       (filter (\<lambda>(q, typed, skip). \<not> skip \<and> trim typed \<noteq> []) (zip qs acts))"

section \<open>The application (App.jsx)\<close>

text \<open>
  A saved template. \<open>id\<close> is \<open>Date.now()\<close>, the clock in milliseconds; \<open>date\<close> is the
  ISO text of \<open>new Date()\<close>.
\<close>

record template =
  id_t :: int
  name :: jsstring
  date :: jsstring
  taskInput :: jsstring
  taskType :: jsstring
  answers :: obj
  selectedStyles :: "jsstring list"
  selectedIndustries :: "jsstring list"
  generatedPrompt :: jsstring
  tags :: "jsstring list"

text \<open>
  The state of the application: its \<open>useState\<close> cells, without the cosmetic ones
  (bubbles, weather), and the item \<open>bubble_templates\<close> of the local storage
  (\<open>None\<close> when absent).
\<close>

record app =
  step :: jsstring
  taskInput :: jsstring
  taskType :: jsstring
  questions :: "question list"
  answers :: obj
  generatedPrompt :: jsstring
  selectedStyles :: "jsstring list"
  selectedIndustries :: "jsstring list"
  templates :: "template list"
  isSidebarOpen :: bool
  bubble_templates :: "jsstring option"

text \<open>The default style tag U+76F4 U+63A5 (direct).\<close>

definition style_direct :: jsstring where
  "style_direct = [0x76F4, 0x63A5]"

definition app_init :: "jsstring option \<Rightarrow> app" where
  "app_init stored =
     \<lparr> step = js ''input'', taskInput = [], taskType = js ''General'', questions = [],
       answers = [], generatedPrompt = [], selectedStyles = [style_direct],
       selectedIndustries = [], templates = [], isSidebarOpen = False,
       bubble_templates = stored \<rparr>"

text \<open>
  The effect that loads the templates when the application starts. \<open>JSON.parse\<close> is a
  parameter: it returns the parsed collection or throws, and nothing catches what it
  throws.
\<close>

definition loadTemplates ::
  "(jsstring \<Rightarrow> js_error + template list) \<Rightarrow> app \<Rightarrow> js_error + app" where
  "loadTemplates parse a =
     (case bubble_templates a of
        None \<Rightarrow> Inr a
      | Some saved \<Rightarrow>
          if saved = [] then Inr a
          else (case parse saved of
                  Inl e \<Rightarrow> Inl e
                | Inr ts \<Rightarrow> Inr (a\<lparr>templates := ts\<rparr>)))"

definition handleStart :: "jsstring \<Rightarrow> app \<Rightarrow> app" where
  "handleStart input a =
     (let analysis = analyzeTask input
      in a\<lparr>app.taskInput := input, app.taskType := type_a analysis,
           questions := recommendedQuestions analysis, step := js ''wizard''\<rparr>)"

text \<open>The submit handler of TaskInput: blank input does not start.\<close>

definition handleSubmit :: "jsstring \<Rightarrow> app \<Rightarrow> app" where
  "handleSubmit input a = (if trim input \<noteq> [] then handleStart input a else a)"

definition handleWizardComplete :: "obj \<Rightarrow> app \<Rightarrow> app" where
  "handleWizardComplete collectedAnswers a =
     a\<lparr>app.answers := collectedAnswers, step := js ''tagging''\<rparr>"

text \<open>The toggle of a tag: \<open>p.includes(t) ? p.filter(x => x !== t) : [...p, t]\<close>.\<close>

definition onToggle :: "jsstring \<Rightarrow> jsstring list \<Rightarrow> jsstring list" where
  "onToggle t p = (if t \<in> set p then filter (\<lambda>x. x \<noteq> t) p else p @ [t])"

text \<open>The format set when no preset gave one: Markdown, structured format.\<close>

definition fallback_format :: jsstring where
  "fallback_format = js ''Markdown '' @ [0x7ED3, 0x6784, 0x5316, 0x683C, 0x5F0F]"

definition configure :: "app \<Rightarrow> CoStarBuilder" where
  "configure a =
     (let b0 = new_CoStarBuilder;
          b1 = setObjective (app.taskInput a) b0;
          b2 = setContext (at_or (app.selectedIndustries a) 0 [0x901A, 0x7528]) [] b1;
          b3 = setUserInputs (app.answers a) b2;
          b4 = foldl (\<lambda>b s. addStyle s b) b3 (app.selectedStyles a);
          b5 = (if app.taskType a = js ''Coding'' then coding b4 else b4);
          b6 = (if app.taskType a = js ''MarketingCopy'' then marketing b5 else b5)
      in if responseFormat b6 = [] then setResponseFormat fallback_format b6 else b6)"

definition handleGenerate :: "app \<Rightarrow> app" where
  "handleGenerate a =
     a\<lparr>app.generatedPrompt := build (configure a), step := js ''result''\<rparr>"

text \<open>
  Saving: \<open>reply\<close> is what \<open>prompt\<close> returned (\<open>None\<close> for null), \<open>now\<close> is \<open>Date.now()\<close>,
  \<open>isoDate\<close> is \<open>new Date().toISOString()\<close>, and \<open>stringify\<close> is \<open>JSON.stringify\<close>.
\<close>

definition handleSaveTemplate ::
  "(template list \<Rightarrow> jsstring) \<Rightarrow> jsstring option \<Rightarrow> int \<Rightarrow> jsstring \<Rightarrow> app \<Rightarrow> app" where
  "handleSaveTemplate stringify reply now isoDate a =
     (case reply of
        None \<Rightarrow> a
      | Some nm \<Rightarrow>
          if nm = [] then a
          else
            let newTpl = \<lparr> id_t = now, name = nm, date = isoDate,
                  taskInput = app.taskInput a, taskType = app.taskType a,
                  answers = app.answers a, selectedStyles = app.selectedStyles a,
                  selectedIndustries = app.selectedIndustries a,
                  generatedPrompt = app.generatedPrompt a,
                  tags = app.selectedStyles a @ app.selectedIndustries a \<rparr>;
                newTemplates = newTpl # templates a
            in a\<lparr>templates := newTemplates,
                 bubble_templates := Some (stringify newTemplates),
                 isSidebarOpen := True\<rparr>)"

definition handleDeleteTemplate :: "(template list \<Rightarrow> jsstring) \<Rightarrow> int \<Rightarrow> app \<Rightarrow> app" where
  "handleDeleteTemplate stringify i a =
     (let newTemplates = filter (\<lambda>t. id_t t \<noteq> i) (templates a)
      in a\<lparr>templates := newTemplates, bubble_templates := Some (stringify newTemplates)\<rparr>)"

definition handleLoadTemplate :: "template \<Rightarrow> app \<Rightarrow> app" where
  "handleLoadTemplate tpl a =
     a\<lparr>app.taskInput := template.taskInput tpl,
       app.answers := template.answers tpl,
       app.selectedStyles := template.selectedStyles tpl,
       app.selectedIndustries := template.selectedIndustries tpl,
       app.generatedPrompt := template.generatedPrompt tpl,
       step := js ''result'',
       isSidebarOpen := False\<rparr>"

text \<open>The restart button of the result view: \<open>() => setStep('input')\<close>.\<close>

definition onRestart :: "app \<Rightarrow> app" where
  "onRestart a = a\<lparr>step := js ''input''\<rparr>"

text \<open>
  The user's actions, and what each does in the view that is on screen: a control
  that is not rendered in the current step cannot be used, and the sidebar lists the
  saved templates only. The logo (back to the input view) and the sidebar buttons are
  always there.
\<close>

datatype event =
    Submit jsstring
  | WizardComplete obj
  | ToggleStyle jsstring
  | ToggleIndustry jsstring
  | Generate
  | Save "jsstring option" int jsstring
  | Restart
  | Load template
  | Delete int
  | LogoClick
  | OpenSidebar
  | CloseSidebar

fun fire :: "(template list \<Rightarrow> jsstring) \<Rightarrow> event \<Rightarrow> app \<Rightarrow> app" where
  "fire stringify (Submit input) a =
     (if step a = js ''input'' then handleSubmit input a else a)"
| "fire stringify (WizardComplete collected) a =
     (if step a = js ''wizard'' then handleWizardComplete collected a else a)"
| "fire stringify (ToggleStyle t) a =
     (if step a = js ''tagging''
      then a\<lparr>app.selectedStyles := onToggle t (app.selectedStyles a)\<rparr> else a)"
| "fire stringify (ToggleIndustry t) a =
     (if step a = js ''tagging''
      then a\<lparr>app.selectedIndustries := onToggle t (app.selectedIndustries a)\<rparr> else a)"
| "fire stringify Generate a =
     (if step a = js ''tagging'' then handleGenerate a else a)"
| "fire stringify (Save reply now isoDate) a =
     (if step a = js ''result'' then handleSaveTemplate stringify reply now isoDate a else a)"
| "fire stringify Restart a =
     (if step a = js ''result'' then onRestart a else a)"
| "fire stringify (Load tpl) a =
     (if tpl \<in> set (templates a) then handleLoadTemplate tpl a else a)"
| "fire stringify (Delete i) a =
     (if i \<in> id_t ` set (templates a) then handleDeleteTemplate stringify i a else a)"
| "fire stringify LogoClick a = a\<lparr>step := js ''input''\<rparr>"
| "fire stringify OpenSidebar a = a\<lparr>isSidebarOpen := True\<rparr>"
| "fire stringify CloseSidebar a = a\<lparr>isSidebarOpen := False\<rparr>"

definition run :: "(template list \<Rightarrow> jsstring) \<Rightarrow> event list \<Rightarrow> app \<Rightarrow> app" where
  "run stringify evs a = foldl (\<lambda>s ev. fire stringify ev s) a evs"

text \<open>
  A stand-in for \<open>JSON.parse\<close> in the closed examples: like \<open>JSON.parse\<close> it returns
  the empty collection on the text \<open>[]\<close> and throws a SyntaxError on the malformed
  text of one opening brace, the only two texts the examples give it.
\<close>

definition parse_stub :: "jsstring \<Rightarrow> js_error + template list" where
  "parse_stub s = (if s = js ''[]'' then Inr [] else Inl SyntaxError)"

text \<open>
  A stand-in for \<open>JSON.stringify\<close> in the closed examples, none of which reads the
  stored text back.
\<close>

definition stringify_stub :: "template list \<Rightarrow> jsstring" where
  "stringify_stub ts = []"

text \<open>
  A sequence of actions in which every save happens at a clock reading that is not
  the id of a stored template (as with a clock that advances between saves).
\<close>

fun clock_fresh :: "(template list \<Rightarrow> jsstring) \<Rightarrow> event list \<Rightarrow> app \<Rightarrow> bool" where
  "clock_fresh stringify [] a = True"
| "clock_fresh stringify (ev # evs) a =
     ((case ev of Save reply now isoDate \<Rightarrow> now \<notin> id_t ` set (templates a) | _ \<Rightarrow> True)
      \<and> clock_fresh stringify evs (fire stringify ev a))"

text \<open>
  The session used in the closed examples: the marketing task is submitted, the
  wizard completes with the platform answer, the style U+5E7D U+9ED8 U+98CE U+8DA3
  (humorous) and the industry U+7535 U+5546 (e-commerce) are selected, and the prompt
  is generated.
\<close>

definition session_events :: "event list" where
  "session_events =
     [Submit [0x5E2E, 0x6211, 0x5199, 0x4E00, 0x6BB5, 0x5C0F, 0x7EA2, 0x4E66, 0x6587, 0x6848],
      WizardComplete [(js ''q_platform'', [0x5C0F, 0x7EA2, 0x4E66])],
      ToggleStyle [0x5E7D, 0x9ED8, 0x98CE, 0x8DA3],
      ToggleIndustry [0x7535, 0x5546],
      Generate]"

definition session_done :: app where
  "session_done = run stringify_stub session_events (app_init None)"

text \<open>
  Two saves of that session a minute apart, and two saves at the same clock reading.
\<close>

definition two_saves :: "event list" where
  "two_saves =
     [Save (Some (js ''A'')) 1770192000000 (js ''2026-02-04T08:00:00.000Z''),
      Save (Some (js ''B'')) 1770192060000 (js ''2026-02-04T08:01:00.000Z'')]"

definition same_clock_saves :: "event list" where
  "same_clock_saves =
     [Save (Some (js ''A'')) 1770192000000 (js ''2026-02-04T08:00:00.000Z''),
      Save (Some (js ''B'')) 1770192000000 (js ''2026-02-04T08:00:00.000Z'')]"

text \<open>
  The builder that \<open>handleGenerate\<close> configures in the marketing scenario of the
  specification: the task U+5E2E U+6211 U+5199 U+4E00 U+6BB5 U+5C0F U+7EA2 U+4E66
  U+6587 U+6848 (help me write a piece of Xiaohongshu copy), no industry, the platform
  answer, the default style, and the marketing preset.
\<close>

definition scenario_builder :: CoStarBuilder where
  "scenario_builder =
     marketing (addStyle style_direct
       (setUserInputs [(js ''q_platform'', [0x5C0F, 0x7EA2, 0x4E66])]
          (setContext [0x901A, 0x7528] []
             (setObjective [0x5E2E, 0x6211, 0x5199, 0x4E00, 0x6BB5, 0x5C0F, 0x7EA2, 0x4E66, 0x6587, 0x6848]
                new_CoStarBuilder))))"

section \<open>Properties of the classifier\<close>

lemmas classifier_defs =
  analyzeTask_def toLowerCase_def lower_unit_def js_def Let_def

lemma analyzeTask_cases:
  "analyzeTask input =
     (if has_keyword coding_keywords input then analyzeTask (js ''code'')
      else if has_keyword marketing_keywords input then analyzeTask (js ''copy'')
      else analyzeTask [])"
  by (simp add: classifier_defs has_keyword_def coding_keywords_def marketing_keywords_def)

lemma type_Coding: "type_a (analyzeTask (js ''code'')) = js ''Coding''"
  by (simp add: classifier_defs)

lemma type_MarketingCopy: "type_a (analyzeTask (js ''copy'')) = js ''MarketingCopy''"
  by (simp add: classifier_defs)

lemma type_General: "type_a (analyzeTask []) = js ''General''"
  by (simp add: classifier_defs)

lemma ids_Coding:
  "map id_q (recommendedQuestions (analyzeTask (js ''code''))) =
     [js ''q_lang'', js ''q_func'', js ''q_lib'']"
  by (simp add: classifier_defs)

lemma ids_MarketingCopy:
  "map id_q (recommendedQuestions (analyzeTask (js ''copy''))) =
     [js ''q_platform'', js ''q_audience'', js ''q_goal'']"
  by (simp add: classifier_defs)

lemma ids_General:
  "map id_q (recommendedQuestions (analyzeTask [])) =
     [js ''q_detail'', js ''q_audience'', js ''q_format'']"
  by (simp add: classifier_defs)

lemma three_questions:
  "length (recommendedQuestions (analyzeTask (js ''code''))) = 3"
  "length (recommendedQuestions (analyzeTask (js ''copy''))) = 3"
  "length (recommendedQuestions (analyzeTask [])) = 3"
  by (simp_all add: classifier_defs)

lemma js_nonempty: "js ''Coding'' \<noteq> [] \<and> js ''MarketingCopy'' \<noteq> [] \<and> js ''General'' \<noteq> []"
  by (simp add: js_def)

text \<open>
  C7. The classifier is total: for every input string it returns one of the three
  category names, none of them empty, and a list of three questions; when no keyword
  of either set occurs in the lower-cased input the category is General and the
  questions are the generic ones (detail, audience, format).
\<close>

theorem analyzeTask_total:
  "type_a (analyzeTask input) \<in> {js ''Coding'', js ''MarketingCopy'', js ''General''}
   \<and> type_a (analyzeTask input) \<noteq> []
   \<and> length (recommendedQuestions (analyzeTask input)) = 3
   \<and> recommendedQuestions (analyzeTask input) \<noteq> []
   \<and> (\<not> has_keyword coding_keywords input \<and> \<not> has_keyword marketing_keywords input \<longrightarrow>
        type_a (analyzeTask input) = js ''General''
        \<and> map id_q (recommendedQuestions (analyzeTask input)) =
            [js ''q_detail'', js ''q_audience'', js ''q_format''])"
proof -
  have three: "length (recommendedQuestions (analyzeTask input)) = 3"
    by (subst analyzeTask_cases) (simp add: three_questions)
  then have nonempty: "recommendedQuestions (analyzeTask input) \<noteq> []"
    by auto
  have cat: "type_a (analyzeTask input) \<in> {js ''Coding'', js ''MarketingCopy'', js ''General''}"
    by (subst analyzeTask_cases) (simp add: type_Coding type_MarketingCopy type_General)
  then have named: "type_a (analyzeTask input) \<noteq> []"
    using js_nonempty by auto
  have fallback: "type_a (analyzeTask input) = js ''General''
      \<and> map id_q (recommendedQuestions (analyzeTask input)) =
          [js ''q_detail'', js ''q_audience'', js ''q_format'']"
    if "\<not> has_keyword coding_keywords input" "\<not> has_keyword marketing_keywords input"
    using that by (subst (1 2) analyzeTask_cases) (simp add: type_General ids_General)
  from cat named three nonempty fallback show ?thesis
    by blast
qed

theorem analyzeTask_total_witness:
  "\<not> has_keyword coding_keywords [] \<and> \<not> has_keyword marketing_keywords []
   \<and> type_a (analyzeTask []) = js ''General''
   \<and> map id_q (recommendedQuestions (analyzeTask [])) =
       [js ''q_detail'', js ''q_audience'', js ''q_format'']"
proof -
  have h: "\<not> has_keyword coding_keywords [] \<and> \<not> has_keyword marketing_keywords []"
    by (simp add: has_keyword_def coding_keywords_def marketing_keywords_def
        toLowerCase_def js_def)
  with analyzeTask_total [of "[]"] show ?thesis
    by blast
qed

text \<open>
  C3. First match wins: an input whose lower-cased text contains a keyword of the
  coding set and a keyword of the marketing set is classified as Coding, the rule
  declared first, whatever the number or the position of the matches.
\<close>

theorem first_match_priority:
  "has_keyword coding_keywords input \<Longrightarrow> has_keyword marketing_keywords input \<Longrightarrow>
   type_a (analyzeTask input) = js ''Coding''
   \<and> map id_q (recommendedQuestions (analyzeTask input)) =
       [js ''q_lang'', js ''q_func'', js ''q_lib'']"
  by (subst (1 2) analyzeTask_cases) (simp add: type_Coding ids_Coding)

text \<open>
  The input of the claim, U+5E2E U+6211 U+5199 U+4EE3 U+7801 U+6587 U+6848 (help me
  write code copy): the coding keyword U+4EE3 U+7801 and the marketing keyword
  U+6587 U+6848 both occur in it.
\<close>

theorem first_match_priority_witness:
  "has_keyword coding_keywords [0x5E2E, 0x6211, 0x5199, 0x4EE3, 0x7801, 0x6587, 0x6848]
   \<and> has_keyword marketing_keywords [0x5E2E, 0x6211, 0x5199, 0x4EE3, 0x7801, 0x6587, 0x6848]
   \<and> type_a (analyzeTask [0x5E2E, 0x6211, 0x5199, 0x4EE3, 0x7801, 0x6587, 0x6848]) = js ''Coding''"
proof -
  have c: "has_keyword coding_keywords [0x5E2E, 0x6211, 0x5199, 0x4EE3, 0x7801, 0x6587, 0x6848]"
    by (simp add: has_keyword_def coding_keywords_def toLowerCase_def lower_unit_def js_def)
  have m: "has_keyword marketing_keywords [0x5E2E, 0x6211, 0x5199, 0x4EE3, 0x7801, 0x6587, 0x6848]"
    by (simp add: has_keyword_def marketing_keywords_def toLowerCase_def lower_unit_def js_def)
  from first_match_priority [OF c m] c m show ?thesis
    by blast
qed

text \<open>
  Two marketing keywords ahead of one coding keyword, in upper case: still Coding.
\<close>

lemma first_match_not_by_count:
  "type_a (analyzeTask ([0x6587, 0x6848, 0x5BA3, 0x4F20] @ js ''COPY Code'')) = js ''Coding''"
  by (simp add: classifier_defs)

section \<open>Properties of the wizard\<close>

lemma trim_Nil: "trim [] = []"
  by (simp add: trim_def)

lemma overwrite_keys:
  "map fst (map (\<lambda>(k', v'). if k' = k then (k', v) else (k', v')) m) = map fst m"
  by (induction m) auto

lemma obj_set_keys: "fst ` set (obj_set k v m) = insert k (fst ` set m)"
proof (cases "k \<in> fst ` set m")
  case True
  have "fst ` set (obj_set k v m) = set (map fst (obj_set k v m))"
    by simp
  also have "\<dots> = set (map fst m)"
    using True by (simp only: obj_set_def if_True overwrite_keys)
  finally show ?thesis using True by auto
next
  case False
  then show ?thesis by (simp add: obj_set_def)
qed

lemma obj_set_values: "snd ` set (obj_set k v m) \<subseteq> insert v (snd ` set m)"
  by (auto simp: obj_set_def split: if_splits)

lemma map_of_overwrite:
  "k \<in> fst ` set m \<Longrightarrow>
   map_of (map (\<lambda>(k', v'). if k' = k then (k', v) else (k', v')) m) k = Some v"
  by (induction m) auto

lemma obj_set_lookup: "map_of (obj_set k v m) k = Some v"
proof (cases "k \<in> fst ` set m")
  case True
  then show ?thesis by (simp add: obj_set_def map_of_overwrite)
next
  case False
  then have "map_of m k = None"
    by (simp add: map_of_eq_None_iff)
  then show ?thesis using False by (simp add: obj_set_def map_add_def)
qed

lemma handleNext_skip:
  "\<exists>w' r. handleNext True qs w = Inr (w', r) \<and> wizard.answers w' = wizard.answers w"
  by (simp add: handleNext_def Let_def)

lemma handleNext_blank:
  "trim (currentAnswer w) = [] \<Longrightarrow> handleNext False qs w = handleNext True qs w"
  by (simp add: handleNext_def)

text \<open>
  C10. When an answer is recorded (submitted with next, not blank once trimmed), the
  value stored under the id of the current question is the text as typed, untrimmed.
\<close>

theorem stored_answer_untrimmed:
  assumes "trim (currentAnswer w) \<noteq> []" "currentIndex w < length qs"
  shows "\<exists>w' r. handleNext False qs w = Inr (w', r)
     \<and> map_of (wizard.answers w') (id_q (qs ! currentIndex w)) = Some (currentAnswer w)"
  using assms by (simp add: handleNext_def Let_def obj_set_lookup)

text \<open>
  The witness: the platform question answered with the platform name between spaces
  (two before, one after); the stored value keeps them.
\<close>

theorem stored_answer_untrimmed_witness:
  "trim (js ''  '' @ [0x5C0F, 0x7EA2, 0x4E66] @ js '' '') \<noteq> []
   \<and> (0::nat) < length (recommendedQuestions (analyzeTask (js ''copy'')))
   \<and> (\<exists>w' r. handleNext False (recommendedQuestions (analyzeTask (js ''copy'')))
          \<lparr>currentIndex = 0, answers = [], currentAnswer = js ''  '' @ [0x5C0F, 0x7EA2, 0x4E66] @ js '' ''\<rparr>
          = Inr (w', r)
        \<and> map_of (wizard.answers w') (js ''q_platform'')
            = Some (js ''  '' @ [0x5C0F, 0x7EA2, 0x4E66] @ js '' ''))
   \<and> js ''  '' @ [0x5C0F, 0x7EA2, 0x4E66] @ js '' '' \<noteq> trim (js ''  '' @ [0x5C0F, 0x7EA2, 0x4E66] @ js '' '')"
proof -
  let ?typed = "js ''  '' @ [0x5C0F, 0x7EA2, 0x4E66] @ js '' ''"
  let ?qs = "recommendedQuestions (analyzeTask (js ''copy''))"
  let ?w = "\<lparr>currentIndex = 0, answers = [], currentAnswer = ?typed\<rparr>"
  have t: "trim (currentAnswer ?w) \<noteq> []"
    by (simp add: trim_def isWhiteSpace_def js_def)
  have i: "currentIndex ?w < length ?qs"
    by (simp add: three_questions)
  have q: "id_q (?qs ! currentIndex ?w) = js ''q_platform''"
    using ids_MarketingCopy by (simp add: three_questions nth_map [symmetric] del: nth_map)
  have d: "?typed \<noteq> trim ?typed"
    by (simp add: trim_def isWhiteSpace_def js_def)
  from stored_answer_untrimmed [OF t i] t i q d show ?thesis
    by simp
qed

lemma clarify_general:
  assumes "currentIndex w < length qs" "[] \<notin> snd ` set (wizard.answers w)"
  shows "\<exists>w' r. clarify qs acts w = Inr (w', r)
     \<and> fst ` set (wizard.answers w') =
         fst ` set (wizard.answers w) \<union> set (recorded (drop (currentIndex w) qs) acts)
     \<and> [] \<notin> snd ` set (wizard.answers w')
     \<and> (\<forall>collected. r = Some collected \<longrightarrow> collected = wizard.answers w')"
  using assms
proof (induction acts arbitrary: w)
  case Nil
  then show ?case by (simp add: recorded_def)
next
  case (Cons act acts)
  obtain typed skip where act: "act = (typed, skip)" by (cases act)
  let ?i = "currentIndex w"
  let ?keep = "\<not> skip \<and> trim typed \<noteq> []"
  let ?new = "if ?keep then obj_set (id_q (qs ! ?i)) typed (wizard.answers w)
              else wizard.answers w"
  have drop: "drop ?i qs = qs ! ?i # drop (Suc ?i) qs"
    using Cons.prems(1) by (simp add: Cons_nth_drop_Suc)
  have typed_ne: "?keep \<Longrightarrow> typed \<noteq> []"
    using trim_Nil by auto
  have vals: "[] \<notin> snd ` set ?new"
    using Cons.prems(2) obj_set_values [of "id_q (qs ! ?i)" typed "wizard.answers w"] typed_ne
    by (auto split: if_splits)
  have keys: "fst ` set ?new = fst ` set (wizard.answers w)
      \<union> (if ?keep then {id_q (qs ! ?i)} else {})"
    by (simp add: obj_set_keys)
  show ?case
  proof (cases "int ?i < int (length qs) - 1")
    case True
    let ?w1 = "w\<lparr>wizard.answers := ?new, currentAnswer := [], currentIndex := ?i + 1\<rparr>"
    have step: "handleNext skip qs (w\<lparr>currentAnswer := typed\<rparr>) = Inr (?w1, None)"
      using True Cons.prems(1) by (simp add: handleNext_def Let_def)
    have idx: "currentIndex ?w1 < length qs"
      using True by simp
    have "[] \<notin> snd ` set (wizard.answers ?w1)"
      using vals by simp
    from Cons.IH [OF idx this] obtain w' r where
      run: "clarify qs acts ?w1 = Inr (w', r)"
      and k: "fst ` set (wizard.answers w') =
          fst ` set (wizard.answers ?w1) \<union> set (recorded (drop (currentIndex ?w1) qs) acts)"
      and v: "[] \<notin> snd ` set (wizard.answers w')"
      and c: "\<forall>collected. r = Some collected \<longrightarrow> collected = wizard.answers w'"
      by blast
    have "clarify qs (act # acts) w = Inr (w', r)"
      using step run by (simp add: act)
    moreover have "fst ` set (wizard.answers w') =
        fst ` set (wizard.answers w) \<union> set (recorded (drop ?i qs) (act # acts))"
      using k keys by (subst drop) (auto simp: recorded_def act)
    ultimately show ?thesis using v c by blast
  next
    case False
    let ?w1 = "w\<lparr>wizard.answers := ?new, currentAnswer := []\<rparr>"
    have step: "handleNext skip qs (w\<lparr>currentAnswer := typed\<rparr>) = Inr (?w1, Some ?new)"
      using False Cons.prems(1) by (simp add: handleNext_def Let_def)
    have last: "drop (Suc ?i) qs = []"
      using False by simp
    have "clarify qs (act # acts) w = Inr (?w1, Some ?new)"
      using step by (simp add: act)
    moreover have "fst ` set (wizard.answers ?w1) =
        fst ` set (wizard.answers w) \<union> set (recorded (drop ?i qs) (act # acts))"
      using keys by (subst drop) (auto simp: recorded_def act last)
    moreover have "[] \<notin> snd ` set (wizard.answers ?w1)"
      using vals by simp
    ultimately show ?thesis by simp
  qed
qed

text \<open>
  C6. Skipping never adds a key to the answers, and a blank answer submitted with next
  does exactly what skip does. Over any sequence of answer and skip steps of the
  Clarify stage on a non-empty question list, started from the fresh component, the
  stage does not fail, the keys of the answers are the ids of exactly the questions
  whose answer was submitted with next and is not blank once trimmed, and no value is
  the empty string; what \<open>onComplete\<close> receives is that answer map.
\<close>

theorem clarify_records_nonblank:
  assumes "qs \<noteq> []"
  shows "(\<exists>w' r. clarify qs acts wizard_init = Inr (w', r)
            \<and> fst ` set (wizard.answers w') = set (recorded qs acts)
            \<and> [] \<notin> snd ` set (wizard.answers w')
            \<and> (\<forall>collected. r = Some collected \<longrightarrow> collected = wizard.answers w'))
     \<and> (\<exists>w' r. handleNext True qs w = Inr (w', r) \<and> wizard.answers w' = wizard.answers w)
     \<and> (trim (currentAnswer w) = [] \<longrightarrow>
          handleNext False qs w = handleNext True qs w)"
proof -
  have "currentIndex wizard_init < length qs" "[] \<notin> snd ` set (wizard.answers wizard_init)"
    using assms by (simp_all add: wizard_init_def)
  from clarify_general [OF this, of acts] have
    "\<exists>w' r. clarify qs acts wizard_init = Inr (w', r)
            \<and> fst ` set (wizard.answers w') = set (recorded qs acts)
            \<and> [] \<notin> snd ` set (wizard.answers w')
            \<and> (\<forall>collected. r = Some collected \<longrightarrow> collected = wizard.answers w')"
    by (simp add: wizard_init_def)
  with handleNext_skip [of qs w] handleNext_blank [of w qs] show ?thesis
    by blast
qed


text \<open>
  The witness: the three marketing questions, the first answered with the platform
  name, the second with blanks only (ideographic space, space, tab), the third
  skipped with text in the text area.
\<close>

theorem clarify_records_nonblank_witness:
  "recommendedQuestions (analyzeTask (js ''copy'')) \<noteq> []
   \<and> trim (currentAnswer (wizard_init\<lparr>currentAnswer := [0x3000, 0x0020, 0x0009]\<rparr>)) = []
   \<and> (\<exists>w' r. clarify (recommendedQuestions (analyzeTask (js ''copy'')))
          [([0x5C0F, 0x7EA2, 0x4E66], False), ([0x3000, 0x0020, 0x0009], False), (js ''x'', True)]
          wizard_init = Inr (w', r)
        \<and> fst ` set (wizard.answers w') = {js ''q_platform''}
        \<and> [] \<notin> snd ` set (wizard.answers w'))
   \<and> handleNext False (recommendedQuestions (analyzeTask (js ''copy'')))
         (wizard_init\<lparr>currentAnswer := [0x3000, 0x0020, 0x0009]\<rparr>)
       = handleNext True (recommendedQuestions (analyzeTask (js ''copy'')))
           (wizard_init\<lparr>currentAnswer := [0x3000, 0x0020, 0x0009]\<rparr>)"
proof -
  let ?qs = "recommendedQuestions (analyzeTask (js ''copy''))"
  let ?acts = "[([0x5C0F, 0x7EA2, 0x4E66], False), ([0x3000, 0x0020, 0x0009], False), (js ''x'', True)]"
  let ?w = "wizard_init\<lparr>currentAnswer := [0x3000, 0x0020, 0x0009]\<rparr>"
  have h: "?qs \<noteq> []"
    by (simp add: classifier_defs)
  have b: "trim (currentAnswer ?w) = []"
    by (simp add: trim_def isWhiteSpace_def)
  have r: "recorded ?qs ?acts = [js ''q_platform'']"
    by (simp add: recorded_def classifier_defs trim_def isWhiteSpace_def)
  have s: "set [js ''q_platform''] = {js ''q_platform''}"
    by simp
  from clarify_records_nonblank [OF h, of ?acts ?w, unfolded r s] h b show ?thesis
    by blast
qed


lemma clarify_scenario:
  "clarify (recommendedQuestions (analyzeTask (js ''copy'')))
     [([0x5C0F, 0x7EA2, 0x4E66], False), ([], True), ([], True)] wizard_init =
   Inr (\<lparr>currentIndex = 2, answers = [(js ''q_platform'', [0x5C0F, 0x7EA2, 0x4E66])], currentAnswer = []\<rparr>,
        Some [(js ''q_platform'', [0x5C0F, 0x7EA2, 0x4E66])])"
  by (simp add: classifier_defs wizard_init_def handleNext_def obj_set_def trim_def isWhiteSpace_def)


section \<open>Properties of the prompt builder\<close>

lemma build_template_split:
  "build_template b =
     [LF] @ before_constraints b
     @ (heading_constraints @ [LF]
        @ or_else (join [LF] (map (\<lambda>c. js ''- '' @ c) (constraints b))) no_constraints @ [LF]
        @ no_hallucination @ [LF]
        @ production_ready @ [LF]
        @ keep_tone_prefix @ at_or (style b) 0 default_tone @ keep_tone_suffix @ [LF]
        @ [LF])
     @ heading_reply @ [LF]"
  by (simp add: build_template_def before_constraints_def Let_def)

lemma trim_frame:
  assumes "s \<noteq> []" "\<not> isWhiteSpace (hd s)" "e \<noteq> []" "\<not> isWhiteSpace (last e)"
  shows "trim ([LF] @ s @ m @ e @ [LF]) = s @ m @ e"
proof -
  obtain x s' where s: "s = x # s'" using assms(1) by (cases s) auto
  obtain e' y where e: "e = e' @ [y]" using assms(3) by (cases e rule: rev_cases) auto
  have ws: "isWhiteSpace LF" by (simp add: isWhiteSpace_def LF_def)
  have x: "\<not> isWhiteSpace x" using assms(2) s by simp
  have y: "\<not> isWhiteSpace y" using assms(4) e by simp
  have "dropWhile isWhiteSpace ([LF] @ s @ m @ e @ [LF]) = s @ m @ e @ [LF]"
    using ws x s by simp
  moreover have "rev (s @ m @ e @ [LF]) = LF # y # rev e' @ rev m @ rev s"
    using e by simp
  moreover have "dropWhile isWhiteSpace (LF # y # rev e' @ rev m @ rev s) = y # rev e' @ rev m @ rev s"
    using ws y by simp
  moreover have "rev (y # rev e' @ rev m @ rev s) = s @ m @ e"
    using e by simp
  ultimately show ?thesis by (simp only: trim_def)
qed

lemma before_constraints_start:
  "before_constraints b \<noteq> [] \<and> \<not> isWhiteSpace (hd (before_constraints b))"
  by (simp add: before_constraints_def heading_role_def js_def isWhiteSpace_def Let_def)

lemma heading_reply_end: "heading_reply \<noteq> [] \<and> \<not> isWhiteSpace (last heading_reply)"
  by (simp add: heading_reply_def js_def isWhiteSpace_def)

lemma build_split:
  "build b =
     before_constraints b
     @ (heading_constraints @ [LF]
        @ or_else (join [LF] (map (\<lambda>c. js ''- '' @ c) (constraints b))) no_constraints @ [LF]
        @ no_hallucination @ [LF]
        @ production_ready @ [LF]
        @ keep_tone_prefix @ at_or (style b) 0 default_tone @ keep_tone_suffix @ [LF]
        @ [LF])
     @ heading_reply"
  unfolding build_def build_template_split
  using before_constraints_start [of b] heading_reply_end
  by (intro trim_frame) simp_all

lemma join_nonempty: "xs \<noteq> [] \<Longrightarrow> hd xs \<noteq> [] \<Longrightarrow> join sep xs \<noteq> []"
  by (induction sep xs rule: join.induct) auto

lemma rendered_constraints_nonempty:
  "cs \<noteq> [] \<Longrightarrow> or_else (join [LF] (map (\<lambda>c. js ''- '' @ c) cs)) no_constraints
     = join [LF] (map (\<lambda>c. js ''- '' @ c) cs)"
proof -
  assume "cs \<noteq> []"
  then have "map (\<lambda>c. js ''- '' @ c) cs \<noteq> []" "hd (map (\<lambda>c. js ''- '' @ c) cs) \<noteq> []"
    by (simp_all add: hd_map js_def)
  then have "join [LF] (map (\<lambda>c. js ''- '' @ c) cs) \<noteq> []"
    by (rule join_nonempty)
  then show ?thesis by (simp add: or_else_def)
qed

lemma build_constraints:
  "constraints b \<noteq> [] \<Longrightarrow>
   build b = before_constraints b
     @ constraints_section (constraints b) (at_or (style b) 0 default_tone)
     @ [LF, LF] @ heading_reply"
  by (simp add: build_split rendered_constraints_nonempty constraints_section_def)

lemma addConstraints_constraints [simp]: "constraints (addConstraints cs b) = constraints b @ cs"
  unfolding addConstraints_def by (induction cs arbitrary: b) (simp_all add: addConstraint_def)

lemma addConstraints_style [simp]: "style (addConstraints cs b) = style b"
  unfolding addConstraints_def by (induction cs arbitrary: b) (simp_all add: addConstraint_def)

lemma preset_constraints [simp]:
  "constraints (marketing b) = constraints b @ [marketing_persuasion, marketing_benefits]"
  "constraints (coding b) = constraints b @ [coding_clean, coding_comments]"
  "constraints (academic b) = constraints b @ [academic_language, academic_sources]"
  by (simp_all add: marketing_def coding_def academic_def addConstraint_def setResponseFormat_def)

lemma preset_style [simp]:
  "style (marketing b) = style b" "style (coding b) = style b" "style (academic b) = style b"
  by (simp_all add: marketing_def coding_def academic_def addConstraint_def setResponseFormat_def)

text \<open>
  C5. After a category preset (marketing, coding or academic), with constraints added
  by \<open>addConstraint\<close> before and after it, the rendered prompt ends with the
  constraints block (followed by an empty line and the reply heading): the heading,
  then every constraint of the builder, those added before the preset, the two of the
  preset and those added after it, each on its own line, in order and with repetitions
  kept, then the three universal constraints (no fabrication, fit for production,
  keeping the tone, which is the first style or the default).
\<close>

theorem preset_constraints_rendered:
  "(\<exists>pre. build (addConstraints after (marketing (addConstraints before b))) =
      pre @ constraints_section
              (constraints b @ before @ [marketing_persuasion, marketing_benefits] @ after)
              (at_or (style b) 0 default_tone)
          @ [LF, LF] @ heading_reply)
   \<and> (\<exists>pre. build (addConstraints after (coding (addConstraints before b))) =
      pre @ constraints_section
              (constraints b @ before @ [coding_clean, coding_comments] @ after)
              (at_or (style b) 0 default_tone)
          @ [LF, LF] @ heading_reply)
   \<and> (\<exists>pre. build (addConstraints after (academic (addConstraints before b))) =
      pre @ constraints_section
              (constraints b @ before @ [academic_language, academic_sources] @ after)
              (at_or (style b) 0 default_tone)
          @ [LF, LF] @ heading_reply)"
  by (intro conjI exI) (subst build_constraints; simp)+


lemma startsWith_append: "startsWith (k @ post) k"
  by (induction k) auto

lemma includes_append: "includes_js (pre @ k @ post) k"
proof (induction pre)
  case Nil
  show ?case
  proof (cases "k @ post")
    case Nil
    then show ?thesis by simp
  next
    case (Cons c cs)
    have "startsWith (k @ post) k" by (rule startsWith_append)
    then show ?thesis using Cons by simp
  qed
next
  case (Cons c pre)
  then show ?case by simp
qed

lemma join_member:
  "x \<in> set xs \<Longrightarrow> \<exists>pre post. join sep xs = pre @ x @ post"
proof (induction sep xs rule: join.induct)
  case (1 sep)
  then show ?case by simp
next
  case (2 sep y)
  then have "join sep [y] = [] @ x @ []" by simp
  then show ?case by blast
next
  case (3 sep y z zs)
  show ?case
  proof (cases "x = y")
    case True
    then have "join sep (y # z # zs) = [] @ x @ (sep @ join sep (z # zs))"
      by simp
    then show ?thesis by blast
  next
    case False
    then have "x \<in> set (z # zs)" using 3 by auto
    then obtain pre post where "join sep (z # zs) = pre @ x @ post"
      using 3 by blast
    then have "join sep (y # z # zs) = (y @ sep @ pre) @ x @ post"
      by simp
    then show ?thesis by blast
  qed
qed

lemma build_includes_constraint:
  assumes "c \<in> set (constraints b)"
  shows "includes_js (build b) c"
proof -
  from assms have ne: "constraints b \<noteq> []" by auto
  from assms have "js ''- '' @ c \<in> set (map (\<lambda>c. js ''- '' @ c) (constraints b))"
    by simp
  from join_member [OF this, of "[LF]"] obtain pre post where
    j: "join [LF] (map (\<lambda>c. js ''- '' @ c) (constraints b)) = pre @ (js ''- '' @ c) @ post"
    by blast
  have "build b = (before_constraints b @ heading_constraints @ [LF] @ pre @ js ''- '') @ c
      @ (post @ [LF] @ no_hallucination @ [LF] @ production_ready @ [LF]
         @ keep_tone_prefix @ at_or (style b) 0 default_tone @ keep_tone_suffix
         @ [LF, LF] @ heading_reply)"
    by (simp add: build_constraints [OF ne] constraints_section_def j)
  then show ?thesis by (simp only: includes_append)
qed


section \<open>The marketing scenario\<close>

lemmas string_defs = js_def LF_def SP_def or_else_def at_or_def toUpperCase_def upper_unit_def

lemmas text_defs = heading_role_def heading_costar_def heading_inputs_def heading_chain_def
  heading_constraints_def heading_reply_def label_context_def industry_suffix_def
  label_objective_def label_style_def label_audience_def label_response_def
  default_industry_def default_style_def default_audience_def default_format_def
  no_constraints_def default_tone_def chain_1_def chain_2_def chain_3_def chain_4_def
  chain_5_def no_hallucination_def production_ready_def keep_tone_prefix_def
  keep_tone_suffix_def marketing_persuasion_def marketing_benefits_def marketing_format_def
  fallback_format_def style_direct_def

lemmas builder_defs = new_CoStarBuilder_def setObjective_def setContext_def addStyle_def
  addConstraint_def setResponseFormat_def setUserInputs_def marketing_def coding_def

lemma scenario_start:
  "fire stringify (Submit [0x5E2E, 0x6211, 0x5199, 0x4E00, 0x6BB5, 0x5C0F, 0x7EA2, 0x4E66, 0x6587, 0x6848])
     (app_init stored) =
   (app_init stored)
     \<lparr>app.taskInput := [0x5E2E, 0x6211, 0x5199, 0x4E00, 0x6BB5, 0x5C0F, 0x7EA2, 0x4E66, 0x6587, 0x6848],
      app.taskType := js ''MarketingCopy'',
      questions := recommendedQuestions (analyzeTask (js ''copy'')),
      step := js ''wizard''\<rparr>"
  by (simp add: app_init_def handleSubmit_def handleStart_def classifier_defs trim_def
      isWhiteSpace_def)

lemma scenario_generate:
  "run stringify [WizardComplete [(js ''q_platform'', [0x5C0F, 0x7EA2, 0x4E66])], Generate]
     ((app_init stored)
       \<lparr>app.taskInput := [0x5E2E, 0x6211, 0x5199, 0x4E00, 0x6BB5, 0x5C0F, 0x7EA2, 0x4E66, 0x6587, 0x6848],
        app.taskType := js ''MarketingCopy'',
        questions := recommendedQuestions (analyzeTask (js ''copy'')),
        step := js ''wizard''\<rparr>) =
   (app_init stored)
       \<lparr>app.taskInput := [0x5E2E, 0x6211, 0x5199, 0x4E00, 0x6BB5, 0x5C0F, 0x7EA2, 0x4E66, 0x6587, 0x6848],
        app.taskType := js ''MarketingCopy'',
        questions := recommendedQuestions (analyzeTask (js ''copy'')),
        app.answers := [(js ''q_platform'', [0x5C0F, 0x7EA2, 0x4E66])],
        app.generatedPrompt := build scenario_builder,
        step := js ''result''\<rparr>"
  by (simp add: run_def app_init_def handleWizardComplete_def handleGenerate_def configure_def
      scenario_builder_def at_or_def js_def marketing_def setResponseFormat_def
      marketing_format_def Let_def)

lemma scenario_constraints:
  "constraints scenario_builder = [marketing_persuasion, marketing_benefits]"
  by (simp add: scenario_builder_def builder_defs)

lemma scenario_format_line:
  "filter (\<lambda>l. startsWith l label_response) (split LF (build scenario_builder)) =
     [label_response @ marketing_format]"
  by (simp add: build_split before_constraints_def scenario_builder_def builder_defs text_defs
      string_defs Let_def)

lemma formats_differ:
  "marketing_format \<noteq> fallback_format \<and> marketing_format \<noteq> default_format"
  by (simp add: marketing_format_def fallback_format_def default_format_def js_def)

text \<open>
  C4. The marketing scenario. Submitting the task (help me write a piece of Xiaohongshu
  copy) classifies it as MarketingCopy with the questions platform, audience, goal;
  answering the platform question with the platform name and skipping the other two
  completes the wizard with that single answer; generating with the default style
  (direct) gives a prompt that contains the persuasion and the benefit constraint of
  the marketing preset, and whose only line that starts with the response label is the
  label followed by the marketing format, which is neither fallback format.
\<close>

theorem marketing_scenario:
  "let input = [0x5E2E, 0x6211, 0x5199, 0x4E00, 0x6BB5, 0x5C0F, 0x7EA2, 0x4E66, 0x6587, 0x6848];
       platform = [0x5C0F, 0x7EA2, 0x4E66];
       a1 = fire stringify (Submit input) (app_init stored);
       a3 = run stringify [WizardComplete [(js ''q_platform'', platform)], Generate] a1
   in app.taskType a1 = js ''MarketingCopy''
    \<and> map id_q (questions a1) = [js ''q_platform'', js ''q_audience'', js ''q_goal'']
    \<and> (\<exists>w. clarify (questions a1) [(platform, False), ([], True), ([], True)] wizard_init
             = Inr (w, Some [(js ''q_platform'', platform)]))
    \<and> app.selectedStyles a3 = [style_direct]
    \<and> step a3 = js ''result''
    \<and> includes_js (app.generatedPrompt a3) marketing_persuasion
    \<and> includes_js (app.generatedPrompt a3) marketing_benefits
    \<and> filter (\<lambda>l. startsWith l label_response) (split LF (app.generatedPrompt a3))
        = [label_response @ marketing_format]
    \<and> marketing_format \<noteq> fallback_format \<and> marketing_format \<noteq> default_format"
proof -
  have p: "includes_js (build scenario_builder) marketing_persuasion"
    by (rule build_includes_constraint) (simp add: scenario_constraints)
  have b: "includes_js (build scenario_builder) marketing_benefits"
    by (rule build_includes_constraint) (simp add: scenario_constraints)
  show ?thesis
    unfolding Let_def scenario_start scenario_generate
    using p b scenario_format_line formats_differ clarify_scenario
    by (simp add: ids_MarketingCopy app_init_def del: clarify.simps)
qed


section \<open>Properties of the application\<close>

lemma build_nonempty: "build b \<noteq> []"
  using before_constraints_start [of b] by (simp add: build_split)

lemma session_done_value:
  "session_done =
     \<lparr> step = js ''result'',
       taskInput = [0x5E2E, 0x6211, 0x5199, 0x4E00, 0x6BB5, 0x5C0F, 0x7EA2, 0x4E66, 0x6587, 0x6848],
       taskType = js ''MarketingCopy'',
       questions = recommendedQuestions (analyzeTask (js ''copy'')),
       answers = [(js ''q_platform'', [0x5C0F, 0x7EA2, 0x4E66])],
       generatedPrompt = app.generatedPrompt session_done,
       selectedStyles = [style_direct, [0x5E7D, 0x9ED8, 0x98CE, 0x8DA3]],
       selectedIndustries = [[0x7535, 0x5546]],
       templates = [], isSidebarOpen = False, bubble_templates = None \<rparr>"
  by (simp add: session_done_def session_events_def run_def app_init_def handleSubmit_def
      handleStart_def handleWizardComplete_def handleGenerate_def onToggle_def classifier_defs
      trim_def isWhiteSpace_def style_direct_def)

lemma session_done_prompt: "app.generatedPrompt session_done \<noteq> []"
  by (simp add: session_done_def session_events_def run_def app_init_def handleSubmit_def
      handleStart_def handleWizardComplete_def handleGenerate_def onToggle_def classifier_defs
      trim_def isWhiteSpace_def style_direct_def build_nonempty)


lemma session_done_step: "step session_done = js ''result''"
  by (subst session_done_value) simp

lemma session_done_templates: "templates session_done = []"
  by (subst session_done_value) simp

lemma session_done_fields:
  "app.taskInput session_done =
     [0x5E2E, 0x6211, 0x5199, 0x4E00, 0x6BB5, 0x5C0F, 0x7EA2, 0x4E66, 0x6587, 0x6848]"
  "app.taskType session_done = js ''MarketingCopy''"
  "app.answers session_done = [(js ''q_platform'', [0x5C0F, 0x7EA2, 0x4E66])]"
  "app.selectedStyles session_done = [style_direct, [0x5E7D, 0x9ED8, 0x98CE, 0x8DA3]]"
  "app.selectedIndustries session_done = [[0x7535, 0x5546]]"
  by (subst session_done_value, simp)+

subsection \<open>Restart\<close>

text \<open>
  C1. What the restart button does on the code: after the session above and two saves,
  restart moves from the result view to the input view and leaves the two templates
  and the stored item as they are; it also leaves the task input, the answers, the
  generated prompt and the style and industry selections as they were (the non-default
  selections included), where the claim says they are cleared and reset.
\<close>

theorem restart_keeps_session:
  "let a = run stringify_stub
             [Save (Some (js ''A'')) 1770192000000 (js ''2026-02-04T08:00:00.000Z''),
              Save (Some (js ''B'')) 1770192060000 (js ''2026-02-04T08:01:00.000Z'')]
             session_done;
       a' = fire stringify_stub Restart a
   in step a = js ''result'' \<and> step a' = js ''input''
    \<and> length (templates a') = 2 \<and> templates a' = templates a
    \<and> bubble_templates a' = bubble_templates a
    \<and> app.taskInput a' =
          [0x5E2E, 0x6211, 0x5199, 0x4E00, 0x6BB5, 0x5C0F, 0x7EA2, 0x4E66, 0x6587, 0x6848]
    \<and> app.answers a' = [(js ''q_platform'', [0x5C0F, 0x7EA2, 0x4E66])]
    \<and> app.generatedPrompt a' = app.generatedPrompt session_done
    \<and> app.generatedPrompt a' \<noteq> []
    \<and> app.selectedStyles a' = [style_direct, [0x5E7D, 0x9ED8, 0x98CE, 0x8DA3]]
    \<and> app.selectedStyles a' \<noteq> app.selectedStyles (app_init None)
    \<and> app.selectedIndustries a' = [[0x7535, 0x5546]]"
  using session_done_prompt
  by (simp add: Let_def run_def handleSaveTemplate_def onRestart_def session_done_step
      session_done_templates session_done_fields app_init_def js_def)

subsection \<open>Loading the persisted templates\<close>

text \<open>
  C2, as amended. With no stored item, or an empty one, the load effect leaves the
  application as it is (an empty collection at start); a stored text that parses
  installs the parsed collection; a stored text that does not parse makes the effect
  throw what \<open>JSON.parse\<close> throws: nothing catches it, no state results.
\<close>

theorem load_failure_propagates:
  "(bubble_templates a = None \<or> bubble_templates a = Some [] \<longrightarrow>
      loadTemplates parse a = Inr a)
   \<and> (\<forall>s ts. bubble_templates a = Some s \<and> s \<noteq> [] \<and> parse s = Inr ts \<longrightarrow>
         loadTemplates parse a = Inr (a\<lparr>templates := ts\<rparr>))
   \<and> (\<forall>s e. bubble_templates a = Some s \<and> s \<noteq> [] \<and> parse s = Inl e \<longrightarrow>
         loadTemplates parse a = Inl e)"
  by (auto simp: loadTemplates_def)

text \<open>
  The witness: no stored item, the stored text of the empty array, and the malformed
  stored text of one opening brace.
\<close>

theorem load_failure_propagates_witness:
  "loadTemplates parse_stub (app_init None) = Inr (app_init None)
   \<and> js ''[]'' \<noteq> [] \<and> parse_stub (js ''[]'') = Inr []
   \<and> loadTemplates parse_stub (app_init (Some (js ''[]''))) =
       Inr ((app_init (Some (js ''[]'')))\<lparr>templates := []\<rparr>)
   \<and> js ''{'' \<noteq> [] \<and> parse_stub (js ''{'') = Inl SyntaxError
   \<and> loadTemplates parse_stub (app_init (Some (js ''{''))) = Inl SyntaxError"
proof -
  have n: "bubble_templates (app_init None) = None"
    by (simp add: app_init_def)
  have w: "bubble_templates (app_init (Some (js ''[]''))) = Some (js ''[]'')
      \<and> js ''[]'' \<noteq> [] \<and> parse_stub (js ''[]'') = Inr []"
    by (simp add: app_init_def parse_stub_def js_def)
  have m: "bubble_templates (app_init (Some (js ''{''))) = Some (js ''{'')
      \<and> js ''{'' \<noteq> [] \<and> parse_stub (js ''{'') = Inl SyntaxError"
    by (simp add: app_init_def parse_stub_def js_def)
  from load_failure_propagates [of "app_init None" parse_stub] n
  have 1: "loadTemplates parse_stub (app_init None) = Inr (app_init None)"
    by blast
  from load_failure_propagates [of "app_init (Some (js ''[]''))" parse_stub] w
  have 2: "loadTemplates parse_stub (app_init (Some (js ''[]''))) =
       Inr ((app_init (Some (js ''[]'')))\<lparr>templates := []\<rparr>)"
    by blast
  from load_failure_propagates [of "app_init (Some (js ''{''))" parse_stub] m
  have 3: "loadTemplates parse_stub (app_init (Some (js ''{''))) = Inl SyntaxError"
    by blast
  from 1 2 3 w m show ?thesis
    by blast
qed

text \<open>
  C2 as stated fails: on the malformed stored text the effect throws a SyntaxError
  instead of returning the application with an empty collection.
\<close>

theorem load_failure_counterexample:
  "parse_stub (js ''{'') = Inl SyntaxError
   \<and> loadTemplates parse_stub (app_init (Some (js ''{''))) = Inl SyntaxError
   \<and> loadTemplates parse_stub (app_init (Some (js ''{''))) \<noteq>
       Inr ((app_init (Some (js ''{'')))\<lparr>templates := []\<rparr>)"
  by (simp add: loadTemplates_def app_init_def parse_stub_def js_def)

subsection \<open>Saving and loading a template\<close>

text \<open>
  C8. Saving the session \<open>a\<close> under a non-empty name puts a template with the clock
  reading as id at the head of the collection; loading that template into any later
  state \<open>b\<close> of the application restores the task input, the answers, the style and
  industry selections and the generated prompt of \<open>a\<close>, shows the result view, and
  leaves the category and the question list of \<open>b\<close> as they are.
\<close>

theorem save_load_roundtrip:
  assumes "nm \<noteq> []"
  shows "let saved = handleSaveTemplate stringify (Some nm) now isoDate a;
             tpl = hd (templates saved);
             loaded = handleLoadTemplate tpl b
         in templates saved = tpl # templates a
          \<and> id_t tpl = now \<and> name tpl = nm
          \<and> app.taskInput loaded = app.taskInput a
          \<and> app.answers loaded = app.answers a
          \<and> app.selectedStyles loaded = app.selectedStyles a
          \<and> app.selectedIndustries loaded = app.selectedIndustries a
          \<and> app.generatedPrompt loaded = app.generatedPrompt a
          \<and> app.taskType loaded = app.taskType b
          \<and> questions loaded = questions b
          \<and> templates loaded = templates b
          \<and> step loaded = js ''result''"
  using assms by (simp add: handleSaveTemplate_def handleLoadTemplate_def Let_def)


lemma fire_keeps_templates:
  "templates (run stringify [Restart, Submit input, WizardComplete collected, Generate] a)
     = templates a"
  by (simp add: run_def onRestart_def handleSubmit_def handleStart_def handleWizardComplete_def
      handleGenerate_def Let_def)

text \<open>
  The witness: the marketing session is saved, a coding session follows (restart, the
  task \<open>code\<close>, no answer, generate), and the template is loaded from the sidebar:
  the marketing fields are back while the category and the questions stay those of
  the coding session.
\<close>

theorem save_load_roundtrip_witness:
  "let saved = handleSaveTemplate stringify_stub (Some (js ''A'')) 1770192000000
                 (js ''2026-02-04T08:00:00.000Z'') session_done;
       tpl = hd (templates saved);
       later = run stringify_stub [Restart, Submit (js ''code''), WizardComplete [], Generate] saved;
       loaded = fire stringify_stub (Load tpl) later
   in js ''A'' \<noteq> []
    \<and> app.taskInput later = js ''code''
    \<and> app.taskInput loaded =
          [0x5E2E, 0x6211, 0x5199, 0x4E00, 0x6BB5, 0x5C0F, 0x7EA2, 0x4E66, 0x6587, 0x6848]
    \<and> app.answers loaded = [(js ''q_platform'', [0x5C0F, 0x7EA2, 0x4E66])]
    \<and> app.selectedStyles loaded = [style_direct, [0x5E7D, 0x9ED8, 0x98CE, 0x8DA3]]
    \<and> app.selectedIndustries loaded = [[0x7535, 0x5546]]
    \<and> app.generatedPrompt loaded = app.generatedPrompt session_done
    \<and> template.taskType tpl = js ''MarketingCopy''
    \<and> app.taskType loaded = js ''Coding''
    \<and> map id_q (questions loaded) = [js ''q_lang'', js ''q_func'', js ''q_lib'']"
proof -
  define saved where "saved = handleSaveTemplate stringify_stub (Some (js ''A'')) 1770192000000
                 (js ''2026-02-04T08:00:00.000Z'') session_done"
  define tpl where "tpl = hd (templates saved)"
  define later where
    "later = run stringify_stub [Restart, Submit (js ''code''), WizardComplete [], Generate] saved"
  have nm: "js ''A'' \<noteq> []"
    by (simp add: js_def)
  have rt: "templates saved = tpl # templates session_done
          \<and> id_t tpl = 1770192000000 \<and> name tpl = js ''A''
          \<and> app.taskInput (handleLoadTemplate tpl later) = app.taskInput session_done
          \<and> app.answers (handleLoadTemplate tpl later) = app.answers session_done
          \<and> app.selectedStyles (handleLoadTemplate tpl later) = app.selectedStyles session_done
          \<and> app.selectedIndustries (handleLoadTemplate tpl later)
              = app.selectedIndustries session_done
          \<and> app.generatedPrompt (handleLoadTemplate tpl later)
              = app.generatedPrompt session_done
          \<and> app.taskType (handleLoadTemplate tpl later) = app.taskType later
          \<and> questions (handleLoadTemplate tpl later) = questions later
          \<and> templates (handleLoadTemplate tpl later) = templates later
          \<and> step (handleLoadTemplate tpl later) = js ''result''"
    using save_load_roundtrip [OF nm, of stringify_stub 1770192000000
      "js ''2026-02-04T08:00:00.000Z''" session_done later]
    unfolding Let_def saved_def [symmetric] tpl_def [symmetric] .
  have "templates later = templates saved"
    unfolding later_def by (rule fire_keeps_templates)
  then have listed: "tpl \<in> set (templates later)"
    using rt by simp
  then have load: "fire stringify_stub (Load tpl) later = handleLoadTemplate tpl later"
    by simp
  have saved_step: "step saved = js ''result''"
    using nm by (simp add: saved_def handleSaveTemplate_def session_done_step Let_def)
  have later: "app.taskInput later = js ''code'' \<and> app.taskType later = js ''Coding''
      \<and> map id_q (questions later) = [js ''q_lang'', js ''q_func'', js ''q_lib'']"
    using saved_step
    by (simp add: later_def run_def onRestart_def handleSubmit_def handleStart_def
        handleWizardComplete_def handleGenerate_def Let_def type_Coding ids_Coding)
       (simp add: trim_def isWhiteSpace_def js_def)
  have cat: "template.taskType tpl = js ''MarketingCopy''"
    using nm by (simp add: tpl_def saved_def handleSaveTemplate_def Let_def session_done_fields)
  show ?thesis
    unfolding Let_def saved_def [symmetric] tpl_def [symmetric] later_def [symmetric] load
    using rt later cat nm by (simp add: session_done_fields)
qed


subsection \<open>Template ids\<close>

lemma save_ids:
  "map id_t (templates (handleSaveTemplate stringify reply now isoDate a)) =
     (case reply of None \<Rightarrow> map id_t (templates a)
      | Some nm \<Rightarrow> if nm = [] then map id_t (templates a) else now # map id_t (templates a))"
  by (simp add: handleSaveTemplate_def Let_def split: option.splits)

lemma delete_ids:
  "map id_t (templates (handleDeleteTemplate stringify i a)) =
     filter (\<lambda>j. j \<noteq> i) (map id_t (templates a))"
  by (simp add: handleDeleteTemplate_def Let_def filter_map comp_def)

lemma fire_delete_ids:
  "map id_t (templates (fire stringify (Delete i) a)) =
     filter (\<lambda>j. j \<noteq> i) (map id_t (templates a))"
proof (cases "i \<in> id_t ` set (templates a)")
  case True
  then show ?thesis by (simp add: delete_ids)
next
  case False
  then have "filter (\<lambda>j. j \<noteq> i) (map id_t (templates a)) = map id_t (templates a)"
    by (auto simp: filter_id_conv)
  then show ?thesis using False by simp
qed

lemma other_templates:
  "templates (handleSubmit input a) = templates a"
  "templates (handleWizardComplete collected a) = templates a"
  "templates (handleGenerate a) = templates a"
  "templates (onRestart a) = templates a"
  "templates (handleLoadTemplate tpl a) = templates a"
  by (simp_all add: handleSubmit_def handleStart_def handleWizardComplete_def handleGenerate_def
      onRestart_def handleLoadTemplate_def Let_def)

lemma fire_distinct:
  assumes "distinct (map id_t (templates a))"
    and "case ev of Save reply now isoDate \<Rightarrow> now \<notin> id_t ` set (templates a) | _ \<Rightarrow> True"
  shows "distinct (map id_t (templates (fire stringify ev a)))"
  using assms
  by (cases ev) (auto simp: save_ids delete_ids other_templates split: option.splits)

lemma run_Cons: "run stringify (ev # evs) a = run stringify evs (fire stringify ev a)"
  by (simp add: run_def)

lemma run_distinct:
  "distinct (map id_t (templates a)) \<Longrightarrow> clock_fresh stringify evs a \<Longrightarrow>
   distinct (map id_t (templates (run stringify evs a)))"
proof (induction evs arbitrary: a)
  case Nil
  then show ?case by (simp add: run_def)
next
  case (Cons ev evs)
  from Cons.prems have "distinct (map id_t (templates (fire stringify ev a)))"
    by (intro fire_distinct) simp_all
  moreover from Cons.prems have "clock_fresh stringify evs (fire stringify ev a)"
    by simp
  ultimately show ?case
    unfolding run_Cons by (rule Cons.IH)
qed

lemma filter_id_remove1:
  "distinct (map id_t ts) \<Longrightarrow> t \<in> set ts \<Longrightarrow>
   filter (\<lambda>x. id_t x \<noteq> id_t t) ts = remove1 t ts"
proof (induction ts)
  case Nil
  then show ?case by simp
next
  case (Cons x ts)
  show ?case
  proof (cases "x = t")
    case True
    then have "id_t t \<notin> id_t ` set ts"
      using Cons.prems(1) by simp
    then have "\<forall>y \<in> set ts. id_t y \<noteq> id_t t"
      by (metis imageI)
    then have "filter (\<lambda>x. id_t x \<noteq> id_t t) ts = ts"
      by (simp add: filter_id_conv)
    then show ?thesis using True by simp
  next
    case False
    then have "t \<in> set ts" using Cons.prems(2) by simp
    moreover have "id_t x \<noteq> id_t t"
      using Cons.prems(1) \<open>t \<in> set ts\<close> by auto
    ultimately show ?thesis using Cons False by simp
  qed
qed

lemma delete_exactly_one:
  assumes "distinct (map id_t (templates a))" "t \<in> set (templates a)"
  shows "templates (fire stringify (Delete (id_t t)) a) = remove1 t (templates a)"
  using assms by (simp add: handleDeleteTemplate_def Let_def filter_id_remove1)

text \<open>
  C9, as amended. A saved template receives the clock reading as its id. From a
  collection with pairwise distinct ids, after any sequence of actions in which every
  save happens at a clock reading that is not the id of a stored template, the ids
  are pairwise distinct, and deleting by the id of a stored template removes exactly
  that template.
\<close>

theorem distinct_ids_with_fresh_clock:
  assumes "distinct (map id_t (templates a))" "clock_fresh stringify evs a"
  shows "distinct (map id_t (templates (run stringify evs a)))
     \<and> (\<forall>t \<in> set (templates (run stringify evs a)).
           templates (fire stringify (Delete (id_t t)) (run stringify evs a))
             = remove1 t (templates (run stringify evs a))
         \<and> length (templates (fire stringify (Delete (id_t t)) (run stringify evs a)))
             = length (templates (run stringify evs a)) - 1)
     \<and> (\<forall>nm now isoDate s. nm \<noteq> [] \<longrightarrow>
           map id_t (templates (handleSaveTemplate stringify (Some nm) now isoDate s))
             = now # map id_t (templates s))"
proof -
  let ?s = "run stringify evs a"
  have d: "distinct (map id_t (templates ?s))"
    using assms by (rule run_distinct)
  have del: "\<forall>t \<in> set (templates ?s).
      templates (fire stringify (Delete (id_t t)) ?s) = remove1 t (templates ?s)
      \<and> length (templates (fire stringify (Delete (id_t t)) ?s)) = length (templates ?s) - 1"
  proof
    fix t
    assume t: "t \<in> set (templates ?s)"
    have e: "templates (fire stringify (Delete (id_t t)) ?s) = remove1 t (templates ?s)"
      by (rule delete_exactly_one [OF d t])
    have "length (remove1 t (templates ?s)) = length (templates ?s) - 1"
      using t by (simp add: length_remove1)
    with e show "templates (fire stringify (Delete (id_t t)) ?s) = remove1 t (templates ?s)
      \<and> length (templates (fire stringify (Delete (id_t t)) ?s)) = length (templates ?s) - 1"
      by (simp only: simp_thms)
  qed
  have sv: "\<forall>nm now isoDate s. nm \<noteq> [] \<longrightarrow>
      map id_t (templates (handleSaveTemplate stringify (Some nm) now isoDate s))
        = now # map id_t (templates s)"
    by (simp add: save_ids)
  from d del sv show ?thesis
    by (intro conjI)
qed

lemma run_saves_ids:
  "map id_t (templates (run stringify_stub [Save (Some (js ''A'')) m d, Save (Some (js ''B'')) n e]
      session_done)) = [n, m]"
  by (simp add: run_def session_done_step session_done_templates handleSaveTemplate_def
      Let_def js_def)

text \<open>
  The witness: two saves a minute apart, then the deletion of the first.
\<close>

theorem distinct_ids_with_fresh_clock_witness:
  "distinct (map id_t (templates session_done))
   \<and> clock_fresh stringify_stub two_saves session_done
   \<and> map id_t (templates (run stringify_stub two_saves session_done))
       = [1770192060000, 1770192000000]
   \<and> distinct (map id_t (templates (run stringify_stub two_saves session_done)))
   \<and> map id_t (templates (fire stringify_stub (Delete 1770192000000)
         (run stringify_stub two_saves session_done))) = [1770192060000]"
proof -
  have d0: "distinct (map id_t (templates session_done))"
    by (simp add: session_done_templates)
  have fresh: "clock_fresh stringify_stub two_saves session_done"
    by (simp add: two_saves_def session_done_step session_done_templates
        handleSaveTemplate_def Let_def js_def)
  have ids: "map id_t (templates (run stringify_stub two_saves session_done))
       = [1770192060000, 1770192000000]"
    unfolding two_saves_def by (rule run_saves_ids)
  have del: "map id_t (templates (fire stringify_stub (Delete 1770192000000)
         (run stringify_stub two_saves session_done))) = [1770192060000]"
    by (simp only: fire_delete_ids ids) simp
  from distinct_ids_with_fresh_clock [OF d0 fresh] d0 fresh ids del show ?thesis
    by blast
qed

text \<open>
  C9 as stated fails: two saves at the same clock reading give two templates with the
  same id, and deleting by that id removes both.
\<close>

theorem duplicate_ids_counterexample:
  "map id_t (templates (run stringify_stub same_clock_saves session_done))
     = [1770192000000, 1770192000000]
   \<and> \<not> distinct (map id_t (templates (run stringify_stub same_clock_saves session_done)))
   \<and> length (templates (run stringify_stub same_clock_saves session_done)) = 2
   \<and> length (templates (fire stringify_stub (Delete 1770192000000)
        (run stringify_stub same_clock_saves session_done))) = 0"
proof -
  have ids: "map id_t (templates (run stringify_stub same_clock_saves session_done))
       = [1770192000000, 1770192000000]"
    unfolding same_clock_saves_def by (rule run_saves_ids)
  have len: "length (templates (run stringify_stub same_clock_saves session_done)) = 2"
    using arg_cong [OF ids, of length] by simp
  have "map id_t (templates (fire stringify_stub (Delete 1770192000000)
        (run stringify_stub same_clock_saves session_done))) = []"
    by (simp only: fire_delete_ids ids) simp
  then have "length (map id_t (templates (fire stringify_stub (Delete 1770192000000)
        (run stringify_stub same_clock_saves session_done)))) = 0"
    by simp
  with ids len show ?thesis
    by (simp del: fire.simps)
qed


end
